theory Spec2Isabelle
  imports Main "HOL-Library.Sublist"
begin

section \<open>Strings\<close>

text \<open>
  A JavaScript string is modelled as a list of 8-bit code units: the Latin-1 range of the
  UTF-16 code units the program sees. Within that range the functions below agree with
  \<^verbatim>\<open>String.prototype.toLowerCase\<close>, \<^verbatim>\<open>trim\<close>, \<^verbatim>\<open>includes\<close> and
  \<^verbatim>\<open>Array.prototype.join\<close>.
\<close>

definition is_line_terminator :: "char \<Rightarrow> bool" where
  "is_line_terminator c \<longleftrightarrow> c = CHR 0x0A \<or> c = CHR 0x0D"

definition is_white_space :: "char \<Rightarrow> bool" where
  "is_white_space c \<longleftrightarrow>
     c = CHR 0x09 \<or> c = CHR 0x0A \<or> c = CHR 0x0B \<or> c = CHR 0x0C \<or> c = CHR 0x0D \<or>
     c = CHR 0x20 \<or> c = CHR 0xA0"

definition is_digit :: "char \<Rightarrow> bool" where
  "is_digit c \<longleftrightarrow> 48 \<le> (of_char c :: int) \<and> (of_char c :: int) \<le> 57"

definition toLowerCase_char :: "char \<Rightarrow> char" where
  "toLowerCase_char c =
     (let n = (of_char c :: int)
      in if (65 \<le> n \<and> n \<le> 90) \<or> (192 \<le> n \<and> n \<le> 222 \<and> n \<noteq> 215)
         then char_of (n + 32) else c)"

definition toLowerCase :: "string \<Rightarrow> string" where
  "toLowerCase s = map toLowerCase_char s"

definition trim :: "string \<Rightarrow> string" where
  "trim s = rev (dropWhile is_white_space (rev (dropWhile is_white_space s)))"

definition includes_str :: "string \<Rightarrow> string \<Rightarrow> bool" where
  "includes_str s sub = sublist sub s"

fun join :: "string \<Rightarrow> string list \<Rightarrow> string" where
  "join sep [] = []"
| "join sep [x] = x"
| "join sep (x # y # ys) = x @ sep @ join sep (y # ys)"

function show_nat :: "nat \<Rightarrow> string" where
  "show_nat n = (if n < 10 then [char_of (48 + n)]
                 else show_nat (n div 10) @ [char_of (48 + n mod 10)])"
  by pat_completeness auto
termination
  by (relation "measure id") auto

declare show_nat.simps [simp del]


section \<open>Regular expressions\<close>

text \<open>
  The patterns of the program use literals, character classes, \<^verbatim>\<open>?\<close>, greedy and lazy
  repetition of one character class, alternation, capturing groups, the end-of-input
  anchor (\<^verbatim>\<open>$\<close> without the \<^verbatim>\<open>m\<close> flag) and one positive lookahead. \<open>ms r (s, c)\<close> lists
  every way \<open>r\<close> can match a prefix of \<open>s\<close>, in the order in which a backtracking matcher
  tries them: the head of the list is the match the engine reports. A state is the input
  that is left together with the captures made so far; a capture is kept as the input at
  which its group began and the input at which it ended.
\<close>

datatype rx =
    Lit string
  | LitI string
  | Cls "char \<Rightarrow> bool"
  | Opt rx
  | StarG "char \<Rightarrow> bool"
  | StarL "char \<Rightarrow> bool"
  | Seq rx rx
  | Alt rx rx
  | Grp nat rx
  | Eoi
  | Look rx

type_synonym span = "string \<times> string"

type_synonym mstate = "string \<times> (nat \<rightharpoonup> span)"

text \<open>Case folding of the \<^verbatim>\<open>i\<close> flag; the literals it is applied to are ASCII.\<close>

definition canonicalize :: "char \<Rightarrow> char" where
  "canonicalize c =
     (let n = (of_char c :: int) in if 97 \<le> n \<and> n \<le> 122 then char_of (n - 32) else c)"

fun prefixI :: "string \<Rightarrow> string \<Rightarrow> bool" where
  "prefixI [] s = True"
| "prefixI (a # l) [] = False"
| "prefixI (a # l) (x # s) = (if canonicalize a = canonicalize x then prefixI l s else False)"

fun starG :: "(char \<Rightarrow> bool) \<Rightarrow> string \<Rightarrow> string list" where
  "starG p [] = [[]]"
| "starG p (x # xs) = (if p x then starG p xs @ [x # xs] else [x # xs])"

fun starL :: "(char \<Rightarrow> bool) \<Rightarrow> string \<Rightarrow> string list" where
  "starL p [] = [[]]"
| "starL p (x # xs) = (x # xs) # (if p x then starL p xs else [])"

fun ms :: "rx \<Rightarrow> mstate \<Rightarrow> mstate list" where
  "ms (Lit l) (s, c) = (if prefix l s then [(drop (length l) s, c)] else [])"
| "ms (LitI l) (s, c) = (if prefixI l s then [(drop (length l) s, c)] else [])"
| "ms (Cls p) (s, c) = (case s of [] \<Rightarrow> [] | x # xs \<Rightarrow> if p x then [(xs, c)] else [])"
| "ms (Opt r) st = ms r st @ [st]"
| "ms (StarG p) (s, c) = map (\<lambda>s'. (s', c)) (starG p s)"
| "ms (StarL p) (s, c) = map (\<lambda>s'. (s', c)) (starL p s)"
| "ms (Seq a b) st = concat (map (ms b) (ms a st))"
| "ms (Alt a b) st = ms a st @ ms b st"
| "ms (Grp i r) (s, c) =
     map (\<lambda>(s', c'). (s', c'(i \<mapsto> (s, s')))) (ms r (s, c))"
| "ms Eoi (s, c) = (if s = [] then [(s, c)] else [])"
| "ms (Look r) st = (if ms r st = [] then [] else [st])"

fun ngroups :: "rx \<Rightarrow> nat" where
  "ngroups (Opt r) = ngroups r"
| "ngroups (Seq a b) = ngroups a + ngroups b"
| "ngroups (Alt a b) = ngroups a + ngroups b"
| "ngroups (Grp i r) = Suc (ngroups r)"
| "ngroups (Look r) = ngroups r"
| "ngroups r = 0"

record rmatch =
  before :: string
  matched :: string
  after :: string
  groups :: "nat \<rightharpoonup> span"

text \<open>
  \<open>grp m i\<close> reads capture \<open>i\<close> of a match. In every pattern of the program each group
  takes part in every match, so the \<^verbatim>\<open>undefined\<close> of JavaScript never arises.
\<close>

definition grp :: "rmatch \<Rightarrow> nat \<Rightarrow> string" where
  "grp m i = (case groups m i of
                Some (s, s') \<Rightarrow> take (length s - length s') s
              | None \<Rightarrow> [])"

text \<open>
  \<open>rx_exec r pre s\<close> is the search of \<^verbatim>\<open>RegExp.prototype.exec\<close>: the leftmost
  position of \<open>s\<close> at which \<open>r\<close> matches, \<open>pre\<close> being the input already passed.
\<close>

fun rx_exec :: "rx \<Rightarrow> string \<Rightarrow> string \<Rightarrow> rmatch option" where
  "rx_exec r pre [] =
     (case ms r ([], Map.empty) of
        [] \<Rightarrow> None
      | (rest, c) # _ \<Rightarrow> Some \<lparr>before = pre, matched = [], after = rest, groups = c\<rparr>)"
| "rx_exec r pre (x # xs) =
     (case ms r (x # xs, Map.empty) of
        [] \<Rightarrow> rx_exec r (pre @ [x]) xs
      | (rest, c) # _ \<Rightarrow>
          Some \<lparr>before = pre, matched = take (length (x # xs) - length rest) (x # xs),
                after = rest, groups = c\<rparr>)"

lemma starG_suffix: "s' \<in> set (starG p s) \<Longrightarrow> suffix s' s"
  by (induction p s rule: starG.induct) (auto simp: suffix_Cons split: if_splits)

lemma starL_suffix: "s' \<in> set (starL p s) \<Longrightarrow> suffix s' s"
  by (induction p s rule: starL.induct) (auto simp: suffix_Cons split: if_splits)

lemma ms_suffix: "(s', c') \<in> set (ms r (s, c)) \<Longrightarrow> suffix s' s"
proof (induction r arbitrary: s c s' c')
  case (Seq a b)
  then obtain s1 c1 where 1: "(s1, c1) \<in> set (ms a (s, c))" and 2: "(s', c') \<in> set (ms b (s1, c1))"
    by auto
  from Seq.IH(1)[OF 1] Seq.IH(2)[OF 2] show ?case by (rule suffix_order.trans[rotated])
next
  case (Opt r)
  then show ?case by auto
next
  case (Look r)
  then show ?case by (auto split: if_splits)
qed (auto simp: suffix_drop starG_suffix starL_suffix suffix_ConsI split: if_splits list.splits)

lemma rx_exec_length:
  "rx_exec r pre s = Some m \<Longrightarrow> length (matched m) + length (after m) \<le> length s"
proof (induction r pre s rule: rx_exec.induct)
  case (1 r pre)
  show ?case
  proof (cases "ms r ([], Map.empty)")
    case Nil
    with 1 show ?thesis by auto
  next
    case (Cons a list)
    obtain rest c where a: "a = (rest, c)" by (cases a)
    with Cons have "suffix rest []" using ms_suffix[of rest c r "[]" Map.empty] by simp
    with 1 Cons a show ?thesis by auto
  qed
next
  case (2 r pre x xs)
  show ?case
  proof (cases "ms r (x # xs, Map.empty)")
    case Nil
    with 2 show ?thesis by auto
  next
    case (Cons a list)
    obtain rest c where a: "a = (rest, c)" by (cases a)
    with Cons have "suffix rest (x # xs)" using ms_suffix[of rest c r "x # xs" Map.empty] by simp
    then have "length rest \<le> length (x # xs)" by (rule suffix_length_le)
    with 2 Cons a show ?thesis by auto
  qed
qed

text \<open>
  \<open>rx_matchAll r pre s\<close> lists the successive matches of a pattern with the \<^verbatim>\<open>g\<close> flag
  (\<^verbatim>\<open>matchAll\<close>, and the \<^verbatim>\<open>exec\<close> loop of the status parser): each search starts where
  the previous match ended, one character further after an empty match. No pattern of the
  program matches the empty string.
\<close>

function rx_matchAll :: "rx \<Rightarrow> string \<Rightarrow> string \<Rightarrow> rmatch list" where
  "rx_matchAll r pre s =
     (case rx_exec r pre s of
        None \<Rightarrow> []
      | Some m \<Rightarrow>
          m # (if matched m \<noteq> [] then rx_matchAll r (before m @ matched m) (after m)
               else (case after m of
                       [] \<Rightarrow> []
                     | x # xs \<Rightarrow> rx_matchAll r (before m @ [x]) xs)))"
  by pat_completeness auto
termination
proof (relation "measure (\<lambda>(r, pre, s). length s)")
  show "wf (measure (\<lambda>(r, pre, s). length s))" by simp
next
  fix r pre s m
  assume "rx_exec r pre s = Some m" "matched m \<noteq> []"
  then show "((r, before m @ matched m, after m), (r, pre, s)) \<in> measure (\<lambda>(r, pre, s). length s)"
    using rx_exec_length[of r pre s m] by (cases "matched m") auto
next
  fix r pre s m x xs
  assume "rx_exec r pre s = Some m" "after m = x # xs"
  then show "((r, before m @ [x], xs), (r, pre, s)) \<in> measure (\<lambda>(r, pre, s). length s)"
    using rx_exec_length[of r pre s m] by auto
qed

declare rx_matchAll.simps [simp del]


text \<open>
  The replacement text of \<^verbatim>\<open>String.prototype.replace\<close> is a template: \<^verbatim>\<open>$$\<close> stands for a
  dollar sign, \<^verbatim>\<open>$&\<close> for the matched text, \<^verbatim>\<open>$`\<close> and \<^verbatim>\<open>$'\<close> for the input before and after
  the match, \<^verbatim>\<open>$n\<close> and \<^verbatim>\<open>$nn\<close> for a capture when the pattern has that many groups; any
  other character stands for itself. \<open>ncap\<close> is the number of groups of the pattern.
\<close>

definition digit_val :: "char \<Rightarrow> nat" where
  "digit_val c = nat ((of_char c :: int) - 48)"

definition capture_ref :: "rmatch \<Rightarrow> nat \<Rightarrow> string \<Rightarrow> nat \<Rightarrow> string" where
  "capture_ref m ncap ref index =
     (if 1 \<le> index \<and> index \<le> ncap then grp m index else ref)"

fun getSubstitution :: "rmatch \<Rightarrow> nat \<Rightarrow> string \<Rightarrow> string" where
  "getSubstitution m ncap [] = []"
| "getSubstitution m ncap [c] = [c]"
| "getSubstitution m ncap (c # d # t) =
     (if c \<noteq> CHR ''$'' then c # getSubstitution m ncap (d # t)
      else if d = CHR ''$'' then CHR ''$'' # getSubstitution m ncap t
      else if d = CHR ''&'' then matched m @ getSubstitution m ncap t
      else if d = CHR 0x60 then before m @ getSubstitution m ncap t
      else if d = CHR 0x27 then after m @ getSubstitution m ncap t
      else if is_digit d then
        (case t of
           [] \<Rightarrow> capture_ref m ncap [c, d] (digit_val d)
         | e # t' \<Rightarrow>
             if is_digit e \<and> 10 * digit_val d + digit_val e \<le> ncap
             then capture_ref m ncap [c, d, e] (10 * digit_val d + digit_val e)
                    @ getSubstitution m ncap t'
             else capture_ref m ncap [c, d] (digit_val d) @ getSubstitution m ncap (e # t'))
      else c # getSubstitution m ncap (d # t))"

definition replace_rx :: "rx \<Rightarrow> string \<Rightarrow> string \<Rightarrow> string" where
  "replace_rx r template s =
     (case rx_exec r [] s of
        None \<Rightarrow> s
      | Some m \<Rightarrow> before m @ getSubstitution m (ngroups r) template @ after m)"


section \<open>Project analyzer\<close>

text \<open>
  \<^verbatim>\<open>.\<close> without the \<^verbatim>\<open>s\<close> flag matches every character that is not a line terminator;
  with the flag it matches every character.
\<close>

definition dot :: "char \<Rightarrow> bool" where
  "dot c \<longleftrightarrow> \<not> is_line_terminator c"

definition dot_all :: "char \<Rightarrow> bool" where
  "dot_all c \<longleftrightarrow> True"

text \<open>\<^verbatim>\<open>(?:\n|$)\<close> and \<^verbatim>\<open>(?:\n\n|\n#|\n\*\*|$)\<close>\<close>

definition line_end :: rx where
  "line_end = Alt (Lit ''\<newline>'') Eoi"

definition block_end :: rx where
  "block_end = Alt (Lit ''\<newline>\<newline>'') (Alt (Lit ''\<newline>#'') (Alt (Lit ''\<newline>**'') Eoi))"

text \<open>\<^verbatim>\<open>/Project Name:?\s*(.*?)(?:\n|$)/i\<close>\<close>

definition projectName_rx :: rx where
  "projectName_rx =
     Seq (LitI ''Project Name'') (Seq (Opt (LitI '':'')) (Seq (StarG is_white_space)
       (Seq (Grp 1 (StarL dot)) line_end)))"

text \<open>
  \<^verbatim>\<open>/<keyword>:?\s*(.*?)(?:\n\n|\n#|\n\*\*|$)/is\<close>, for the keywords
  \<^verbatim>\<open>Project Description\<close>, \<^verbatim>\<open>Environment Setup\<close> and \<^verbatim>\<open>Tasks\<close>
\<close>

definition section_rx :: "string \<Rightarrow> rx" where
  "section_rx keyword =
     Seq (LitI keyword) (Seq (Opt (LitI '':'')) (Seq (StarG is_white_space)
       (Seq (Grp 1 (StarL dot_all)) block_end)))"

text \<open>\<^verbatim>\<open>/(?:[-*]|\d+\.)\s*(.*?)(?:\n|$)/g\<close>\<close>

definition bullet_rx :: rx where
  "bullet_rx =
     Seq (Alt (Cls (\<lambda>c. c = CHR ''-'' \<or> c = CHR ''*''))
              (Seq (Cls is_digit) (Seq (StarG is_digit) (Lit ''.''))))
       (Seq (StarG is_white_space) (Seq (Grp 1 (StarL dot)) line_end))"

text \<open>\<^verbatim>\<open>/#+\s*(.*?)(?:\n|$)/g\<close>\<close>

definition heading_rx :: rx where
  "heading_rx =
     Seq (Cls (\<lambda>c. c = CHR ''#'')) (Seq (StarG (\<lambda>c. c = CHR ''#''))
       (Seq (StarG is_white_space) (Seq (Grp 1 (StarL dot)) line_end)))"

record task =
  title :: string
  priority :: string
  description :: string
  subtasks :: "string list"

record projectInfo =
  project_name :: string
  project_description :: string
  environment_setup :: string
  tasks :: "task list"

definition determineTaskPriority :: "string \<Rightarrow> string" where
  "determineTaskPriority text =
     (let textLower = toLowerCase text in
      if includes_str textLower ''urgent'' \<or>
         includes_str textLower ''critical'' \<or>
         includes_str textLower ''important'' \<or>
         includes_str textLower ''high priority'' then ''HIGH''
      else if includes_str textLower ''low priority'' \<or>
              includes_str textLower ''optional'' \<or>
              includes_str textLower ''if time permits'' then ''LOW''
      else if includes_str textLower ''database'' \<or>
              includes_str textLower ''authentication'' \<or>
              includes_str textLower ''core'' \<or>
              includes_str textLower ''foundation'' \<or>
              includes_str textLower ''architecture'' \<or>
              includes_str textLower ''security'' then ''HIGH''
      else if includes_str textLower ''ui'' \<or>
              includes_str textLower ''ux'' \<or>
              includes_str textLower ''design'' \<or>
              includes_str textLower ''style'' \<or>
              includes_str textLower ''appearance'' \<or>
              includes_str textLower ''documentation'' then ''MEDIUM''
      else ''MEDIUM'')"

definition inferProjectType :: "string \<Rightarrow> string" where
  "inferProjectType requirements =
     (let requirementsLower = toLowerCase requirements in
      if includes_str requirementsLower ''web'' \<or>
         includes_str requirementsLower ''website'' \<or>
         includes_str requirementsLower ''frontend'' \<or>
         includes_str requirementsLower ''backend'' \<or>
         includes_str requirementsLower ''fullstack'' \<or>
         includes_str requirementsLower ''html'' \<or>
         includes_str requirementsLower ''css'' \<or>
         includes_str requirementsLower ''javascript'' then ''web''
      else if includes_str requirementsLower ''mobile'' \<or>
              includes_str requirementsLower ''app'' \<or>
              includes_str requirementsLower ''ios'' \<or>
              includes_str requirementsLower ''android'' \<or>
              includes_str requirementsLower ''flutter'' \<or>
              includes_str requirementsLower ''react native'' then ''mobile''
      else if includes_str requirementsLower ''api'' \<or>
              includes_str requirementsLower ''rest'' \<or>
              includes_str requirementsLower ''graphql'' \<or>
              includes_str requirementsLower ''microservice'' then ''api''
      else if includes_str requirementsLower ''data'' \<or>
              includes_str requirementsLower ''analysis'' \<or>
              includes_str requirementsLower ''analytics'' \<or>
              includes_str requirementsLower ''machine learning'' \<or>
              includes_str requirementsLower ''ml'' \<or>
              includes_str requirementsLower ''ai'' then ''data''
      else ''generic'')"

definition mk_task :: "string \<Rightarrow> string \<Rightarrow> string \<Rightarrow> task" where
  "mk_task t p d = \<lparr>title = t, priority = p, description = d, subtasks = []\<rparr>"

definition getDefaultTasks :: "string \<Rightarrow> task list" where
  "getDefaultTasks projectType =
     (if projectType = ''web'' then
        [mk_task ''Setup project structure'' ''HIGH'' ''Initialize the web project structure and configuration files'',
         mk_task ''Implement database models'' ''HIGH'' ''Design and implement database schema and models'',
         mk_task ''Create authentication system'' ''HIGH'' ''Implement user authentication and authorization'',
         mk_task ''Develop API endpoints'' ''MEDIUM'' ''Create backend API endpoints for data access'',
         mk_task ''Build frontend UI'' ''MEDIUM'' ''Develop the user interface components'',
         mk_task ''Implement business logic'' ''MEDIUM'' ''Develop core business logic and functionality'',
         mk_task ''Write tests'' ''MEDIUM'' ''Create unit and integration tests'',
         mk_task ''Setup deployment pipeline'' ''LOW'' ''Configure CI/CD and deployment process'']
      else if projectType = ''mobile'' then
        [mk_task ''Setup project structure'' ''HIGH'' ''Initialize the mobile app project structure'',
         mk_task ''Design app architecture'' ''HIGH'' ''Define the app architecture and navigation flow'',
         mk_task ''Implement authentication'' ''HIGH'' ''Create user authentication and session management'',
         mk_task ''Develop core screens'' ''MEDIUM'' ''Build the main screens and functionality'',
         mk_task ''Implement API integration'' ''MEDIUM'' ''Connect to backend services and APIs'',
         mk_task ''Add offline support'' ''LOW'' ''Implement data caching and offline functionality'',
         mk_task ''Write tests'' ''MEDIUM'' ''Create unit and UI tests'',
         mk_task ''Prepare for app store submission'' ''LOW'' ''Configure app for distribution'']
      else if projectType = ''api'' then
        [mk_task ''Define API specifications'' ''HIGH'' ''Create OpenAPI/Swagger specifications'',
         mk_task ''Setup project structure'' ''HIGH'' ''Initialize the API project structure'',
         mk_task ''Implement database models'' ''HIGH'' ''Design and implement data models'',
         mk_task ''Create authentication middleware'' ''HIGH'' ''Implement API authentication and authorization'',
         mk_task ''Develop API endpoints'' ''MEDIUM'' ''Implement the API endpoints and controllers'',
         mk_task ''Add validation and error handling'' ''MEDIUM'' ''Implement input validation and error responses'',
         mk_task ''Write tests'' ''MEDIUM'' ''Create unit and integration tests'',
         mk_task ''Setup monitoring and logging'' ''LOW'' ''Configure API monitoring and logging'']
      else if projectType = ''data'' then
        [mk_task ''Setup data processing environment'' ''HIGH'' ''Configure data processing tools and libraries'',
         mk_task ''Implement data collection'' ''HIGH'' ''Create data collection and ingestion processes'',
         mk_task ''Develop data cleaning pipeline'' ''HIGH'' ''Implement data cleaning and preprocessing'',
         mk_task ''Create data models'' ''MEDIUM'' ''Develop analytical or machine learning models'',
         mk_task ''Implement data visualization'' ''MEDIUM'' ''Create visualizations and dashboards'',
         mk_task ''Setup data storage'' ''MEDIUM'' ''Configure databases or data warehouses'',
         mk_task ''Write tests'' ''MEDIUM'' ''Create unit tests for data processing'',
         mk_task ''Document data dictionary'' ''LOW'' ''Create documentation for data schemas and models'']
      else
        [mk_task ''Setup project structure'' ''HIGH'' ''Initialize the project structure and configuration'',
         mk_task ''Define core requirements'' ''HIGH'' ''Clarify and document detailed requirements'',
         mk_task ''Implement core functionality'' ''HIGH'' ''Develop the main functionality of the project'',
         mk_task ''Create documentation'' ''MEDIUM'' ''Write user and developer documentation'',
         mk_task ''Implement testing'' ''MEDIUM'' ''Create tests for the project'',
         mk_task ''Setup deployment process'' ''LOW'' ''Configure deployment and distribution''])"

text \<open>
  The two loops of \<^verbatim>\<open>generateTasks\<close>, each pushing onto the array \<^verbatim>\<open>tasks\<close> (here \<open>ts\<close>): over the
  bullet matches of the task section, and over the heading matches of the whole text.
\<close>

fun push_bullets :: "rmatch list \<Rightarrow> task list \<Rightarrow> task list" where
  "push_bullets [] ts = ts"
| "push_bullets (m # rest) ts =
     (let taskTitle = trim (grp m 1) in
      if taskTitle \<noteq> []
      then push_bullets rest (ts @ [mk_task taskTitle (determineTaskPriority taskTitle) []])
      else push_bullets rest ts)"

fun push_sections :: "rmatch list \<Rightarrow> task list \<Rightarrow> task list" where
  "push_sections [] ts = ts"
| "push_sections (m # rest) ts =
     (let sectionTitle = trim (grp m 1) in
      if toLowerCase sectionTitle \<notin>
           set [''project name'', ''project description'', ''environment setup'', ''tasks'']
      then push_sections rest
             (ts @ [mk_task (''Implement '' @ sectionTitle) (determineTaskPriority sectionTitle)
                         (''Based on the '' @ sectionTitle @ '' section in requirements'')])
      else push_sections rest ts)"

definition generateTasks :: "string \<Rightarrow> task list" where
  "generateTasks requirements =
     (let tasks0 = [];
          taskSectionMatch = rx_exec (section_rx ''Tasks'') [] requirements;
          tasks1 = (case taskSectionMatch of
                      None \<Rightarrow> tasks0
                    | Some m \<Rightarrow> push_bullets (rx_matchAll bullet_rx [] (grp m 1)) tasks0);
          tasks2 = (if length tasks1 = 0
                    then push_sections (rx_matchAll heading_rx [] requirements) tasks1
                    else tasks1)
      in if length tasks2 = 0 then getDefaultTasks (inferProjectType requirements) else tasks2)"

definition analyzeRequirements :: "string \<Rightarrow> projectInfo" where
  "analyzeRequirements requirements =
     (let projectName = (case rx_exec projectName_rx [] requirements of
                           Some m \<Rightarrow> trim (grp m 1) | None \<Rightarrow> ''New Project'');
          projectDescription = (case rx_exec (section_rx ''Project Description'') [] requirements of
                                  Some m \<Rightarrow> trim (grp m 1) | None \<Rightarrow> []);
          environmentSetup = (case rx_exec (section_rx ''Environment Setup'') [] requirements of
                                Some m \<Rightarrow> trim (grp m 1) | None \<Rightarrow> [])
      in \<lparr>project_name = projectName, project_description = projectDescription,
          environment_setup = environmentSetup, tasks = generateTasks requirements\<rparr>)"


section \<open>Task manager\<close>

text \<open>
  The file system is a map from paths to file contents. The path of the state file,
  \<^verbatim>\<open>path.join(projectRoot, 'TASK.mdc')\<close>, is computed by the constructor of
  \<^verbatim>\<open>TaskManager\<close> with the platform's library and is taken as given: the operations below
  receive it as \<open>taskFilePath\<close>. A reading of the clock,
  \<^verbatim>\<open>new Date().toISOString().replace('T', ' ').substring(0, 19)\<close>, is an argument too.
  Failures of the file system itself are not modelled.
\<close>

type_synonym fs = "string \<rightharpoonup> string"

datatype error = TypeError

text \<open>
  \<^verbatim>\<open>priorityGroups\<close> is a plain object: a priority that names a property inherited from
  \<^verbatim>\<open>Object.prototype\<close> finds that property instead of a list, and \<^verbatim>\<open>push\<close> throws.
\<close>

definition object_prototype_keys :: "string list" where
  "object_prototype_keys =
     [''constructor'', ''__defineGetter__'', ''__defineSetter__'', ''hasOwnProperty'',
      ''__lookupGetter__'', ''__lookupSetter__'', ''isPrototypeOf'', ''propertyIsEnumerable'',
      ''toString'', ''valueOf'', ''__proto__'', ''toLocaleString'']"

fun group_by_priority ::
  "task list \<Rightarrow> (string \<rightharpoonup> task list) \<Rightarrow> error + (string \<rightharpoonup> task list)" where
  "group_by_priority [] priorityGroups = Inr priorityGroups"
| "group_by_priority (t # rest) priorityGroups =
     (let p = (if priority t = [] then ''MEDIUM'' else priority t) in
      if p \<in> set object_prototype_keys then Inl TypeError
      else group_by_priority rest
             (priorityGroups(p \<mapsto> (case priorityGroups p of None \<Rightarrow> [] | Some g \<Rightarrow> g) @ [t])))"

fun format_group_tasks :: "task list \<Rightarrow> string list" where
  "format_group_tasks [] = []"
| "format_group_tasks (t # rest) =
     [''- [ ] '' @ title t]
     @ (if description t \<noteq> [] then [''  - '' @ description t] else [])
     @ map (\<lambda>subtask. ''  - [ ] '' @ subtask) (subtasks t)
     @ format_group_tasks rest"

fun format_groups :: "string list \<Rightarrow> (string \<rightharpoonup> task list) \<Rightarrow> string list" where
  "format_groups [] priorityGroups = []"
| "format_groups (p # rest) priorityGroups =
     (case priorityGroups p of
        None \<Rightarrow> format_groups rest priorityGroups
      | Some g \<Rightarrow>
          [''### '' @ p @ '' Priority Tasks''] @ format_group_tasks g @ [[]]
          @ format_groups rest priorityGroups)"

definition formatTasks :: "task list \<Rightarrow> error + string" where
  "formatTasks ts =
     (case group_by_priority ts Map.empty of
        Inl e \<Rightarrow> Inl e
      | Inr priorityGroups \<Rightarrow>
          Inr (join ''\<newline>'' (format_groups [''HIGH'', ''MEDIUM'', ''LOW''] priorityGroups)))"

definition createTaskFile ::
  "string \<Rightarrow> string \<Rightarrow> string \<Rightarrow> string \<Rightarrow> string \<Rightarrow> task list \<Rightarrow> string \<Rightarrow> string list \<Rightarrow> string
     \<Rightarrow> fs \<Rightarrow> error + (string \<times> fs)" where
  "createTaskFile taskFilePath now1 now2 projectName projectDescription ts environmentSetup
       nextSteps notes files =
     (case formatTasks ts of
        Inl e \<Rightarrow> Inl e
      | Inr formatted \<Rightarrow>
          (let template =
                 ''# '' @ projectName @ '' - Project Plan\<newline>\<newline>'' @
                 ''## Project Overview\<newline>'' @ projectDescription @ ''\<newline>\<newline>'' @
                 ''## Environment Setup\<newline>```bash\<newline>'' @ environmentSetup @ ''\<newline>```\<newline>\<newline>'' @
                 ''## Implementation Tasks\<newline>\<newline>'' @ formatted @ ''\<newline>\<newline>'' @
                 ''## Progress Tracking\<newline>- Started: '' @ now1 @ ''\<newline>'' @
                 ''- Last Updated: '' @ now2 @ ''\<newline>'' @
                 ''- Status: IN PROGRESS\<newline>\<newline>'' @
                 ''## Next Steps\<newline>'' @ join ''\<newline>'' (map (\<lambda>step. ''- '' @ step) nextSteps) @
                 ''\<newline>\<newline>## Notes\<newline>'' @ notes
           in Inr (taskFilePath, files(taskFilePath \<mapsto> template))))"

text \<open>
  \<^verbatim>\<open>new RegExp(`- \\[([ x])\\] ${escapedTitle}`)\<close>: every syntax character of the title
  (\<^verbatim>\<open>. * + ? ^ $ { } ( ) | [ ] \\<close>) has been escaped with a backslash, so the pattern
  matches the title as a literal.
\<close>

definition task_rx :: "string \<Rightarrow> rx" where
  "task_rx taskTitle =
     Seq (Lit ''- ['') (Seq (Grp 1 (Cls (\<lambda>c. c = CHR '' '' \<or> c = CHR ''x'')))
       (Seq (Lit ''] '') (Lit taskTitle)))"

text \<open>\<^verbatim>\<open>/Last Updated: .*/\<close>\<close>

definition lastUpdated_rx :: rx where
  "lastUpdated_rx = Seq (Lit ''Last Updated: '') (StarG dot)"

definition updateTaskStatus :: "string \<Rightarrow> string \<Rightarrow> string \<Rightarrow> bool \<Rightarrow> fs \<Rightarrow> bool \<times> fs" where
  "updateTaskStatus taskFilePath now taskTitle completed files =
     (case files taskFilePath of
        None \<Rightarrow> (False, files)
      | Some content \<Rightarrow>
          (let newStatus = (if completed then CHR ''x'' else CHR '' '');
               newContent = replace_rx (task_rx taskTitle)
                              (''- ['' @ [newStatus] @ ''] '' @ taskTitle) content;
               updatedContent = replace_rx lastUpdated_rx (''Last Updated: '' @ now) newContent
           in if updatedContent = content then (False, files)
              else (True, files(taskFilePath \<mapsto> updatedContent))))"

text \<open>
  \<^verbatim>\<open>/# (.*) - Project Plan/\<close>, \<^verbatim>\<open>/- \[([ x])\] (.*?)(?=\n- \[|$)/g\<close>,
  \<^verbatim>\<open>/Status: (.*)/\<close> and \<^verbatim>\<open>/Last Updated: (.*)/\<close>
\<close>

definition planName_rx :: rx where
  "planName_rx = Seq (Lit ''# '') (Seq (Grp 1 (StarG dot)) (Lit '' - Project Plan''))"

definition checkbox_rx :: rx where
  "checkbox_rx =
     Seq (Lit ''- ['') (Seq (Grp 1 (Cls (\<lambda>c. c = CHR '' '' \<or> c = CHR ''x'')))
       (Seq (Lit ''] '') (Seq (Grp 2 (StarL dot)) (Look (Alt (Lit ''\<newline>- ['') Eoi)))))"

definition statusLine_rx :: rx where
  "statusLine_rx = Seq (Lit ''Status: '') (Grp 1 (StarG dot))"

definition lastUpdatedLine_rx :: rx where
  "lastUpdatedLine_rx = Seq (Lit ''Last Updated: '') (Grp 1 (StarG dot))"

record statusTask =
  st_title :: string
  st_completed :: bool

record projectStatus =
  st_project_name :: string
  st_status :: string
  st_last_updated :: string
  st_tasks :: "statusTask list"
  completed_tasks :: nat
  total_tasks :: nat

text \<open>The \<^verbatim>\<open>while\<close> loop of \<^verbatim>\<open>getCurrentStatus\<close> over the matches of the checkbox pattern.\<close>

fun push_status_tasks :: "rmatch list \<Rightarrow> statusTask list \<Rightarrow> statusTask list" where
  "push_status_tasks [] ts = ts"
| "push_status_tasks (m # rest) ts =
     push_status_tasks rest
       (ts @ [\<lparr>st_title = trim (grp m 2), st_completed = (grp m 1 = ''x'')\<rparr>])"

definition getCurrentStatus :: "string \<Rightarrow> fs \<Rightarrow> string + projectStatus" where
  "getCurrentStatus taskFilePath files =
     (case files taskFilePath of
        None \<Rightarrow> Inl ''TASK.mdc file not found''
      | Some content \<Rightarrow>
          (let projectName = (case rx_exec planName_rx [] content of
                                Some m \<Rightarrow> grp m 1 | None \<Rightarrow> ''Unknown'');
               ts = push_status_tasks (rx_matchAll checkbox_rx [] content) [];
               status = (case rx_exec statusLine_rx [] content of
                           Some m \<Rightarrow> grp m 1 | None \<Rightarrow> ''Unknown'');
               lastUpdated = (case rx_exec lastUpdatedLine_rx [] content of
                                Some m \<Rightarrow> grp m 1 | None \<Rightarrow> ''Unknown'')
           in Inr \<lparr>st_project_name = projectName, st_status = status,
                    st_last_updated = lastUpdated, st_tasks = ts,
                    completed_tasks = length (filter st_completed ts),
                    total_tasks = length ts\<rparr>))"


section \<open>Resuming a project\<close>

text \<open>The classifier local to \<^verbatim>\<open>resumeProject\<close>, which the source also calls \<^verbatim>\<open>determineTaskPriority\<close>.\<close>

definition resume_determineTaskPriority :: "string \<Rightarrow> string" where
  "resume_determineTaskPriority t =
     (let titleLower = toLowerCase t in
      if includes_str titleLower ''high'' \<or>
         includes_str titleLower ''critical'' \<or>
         includes_str titleLower ''important'' \<or>
         includes_str titleLower ''database'' \<or>
         includes_str titleLower ''authentication'' \<or>
         includes_str titleLower ''core'' \<or>
         includes_str titleLower ''foundation'' \<or>
         includes_str titleLower ''architecture'' \<or>
         includes_str titleLower ''security'' then ''HIGH''
      else if includes_str titleLower ''low'' \<or>
              includes_str titleLower ''optional'' \<or>
              includes_str titleLower ''if time permits'' then ''LOW''
      else ''MEDIUM'')"

record resumeInfo =
  r_project_name :: string
  r_status :: string
  progress :: string
  next_tasks :: "statusTask list"
  r_message :: string

text \<open>
  The result is \<open>Inl message\<close> for \<^verbatim>\<open>{success: false, message}\<close> and \<open>Inr info\<close> for
  \<^verbatim>\<open>{success: true, ...}\<close>.
\<close>

definition resumeProject :: "string \<Rightarrow> fs \<Rightarrow> string + resumeInfo" where
  "resumeProject taskFilePath files =
     (case getCurrentStatus taskFilePath files of
        Inl e \<Rightarrow> Inl e
      | Inr status \<Rightarrow>
          (let incompleteTasks = filter (\<lambda>t. \<not> st_completed t) (st_tasks status);
               highPriorityTasks =
                 filter (\<lambda>t. resume_determineTaskPriority (st_title t) = ''HIGH'') incompleteTasks;
               mediumPriorityTasks =
                 filter (\<lambda>t. resume_determineTaskPriority (st_title t) = ''MEDIUM'') incompleteTasks;
               lowPriorityTasks =
                 filter (\<lambda>t. resume_determineTaskPriority (st_title t) = ''LOW'') incompleteTasks;
               nextTasks0 = (if length highPriorityTasks > 0 then highPriorityTasks
                             else mediumPriorityTasks);
               nextTasks = (if length nextTasks0 = 0 then lowPriorityTasks else nextTasks0)
           in Inr \<lparr>r_project_name = st_project_name status, r_status = st_status status,
                    progress = show_nat (completed_tasks status) @ ''/'' @
                               show_nat (total_tasks status) @ '' tasks completed'',
                    next_tasks = take 3 nextTasks,
                    r_message = ''Project resumed successfully''\<rparr>))"


section \<open>Specification\<close>

text \<open>
  The definitions of this section follow the words of the specification; the theorems
  below compare them with the program.
\<close>

text \<open>
  A table of keyword rules read in order: the first rule with a keyword that occurs in the
  lowercased text decides, and the default applies when none does.
\<close>

fun first_rule :: "(string list \<times> string) list \<Rightarrow> string \<Rightarrow> string \<Rightarrow> string" where
  "first_rule [] lowered dflt = dflt"
| "first_rule ((keywords, p) # rules) lowered dflt =
     (if list_ex (\<lambda>k. sublist k lowered) keywords then p else first_rule rules lowered dflt)"

definition priority_rules :: "(string list \<times> string) list" where
  "priority_rules =
     [([''urgent'', ''critical'', ''important'', ''high priority''], ''HIGH''),
      ([''low priority'', ''optional'', ''if time permits''], ''LOW''),
      ([''database'', ''authentication'', ''core'', ''foundation'', ''architecture'', ''security''],
       ''HIGH''),
      ([''ui'', ''ux'', ''design'', ''style'', ''appearance'', ''documentation''], ''MEDIUM'')]"

definition classifyPriority :: "string \<Rightarrow> string" where
  "classifyPriority text = first_rule priority_rules (toLowerCase text) ''MEDIUM''"

definition resume_high_words :: "string list" where
  "resume_high_words =
     [''high'', ''critical'', ''important'', ''database'', ''authentication'', ''core'',
      ''foundation'', ''architecture'', ''security'']"

definition resume_low_words :: "string list" where
  "resume_low_words = [''low'', ''optional'', ''if time permits'']"

definition mentions :: "string \<Rightarrow> string list \<Rightarrow> bool" where
  "mentions t keywords = list_ex (\<lambda>k. sublist k (toLowerCase t)) keywords"

fun first_nonempty :: "'a list list \<Rightarrow> 'a list" where
  "first_nonempty [] = []"
| "first_nonempty (b # bs) = (if b \<noteq> [] then b else first_nonempty bs)"

definition resume_bucket :: "string \<Rightarrow> statusTask list \<Rightarrow> statusTask list" where
  "resume_bucket p ts = filter (\<lambda>t. resume_determineTaskPriority (st_title t) = p) ts"








definition demo_plan :: string where
  "demo_plan = ''# Demo - Project Plan\<newline>- [ ] Setup database layer\<newline>- [ ] Polish UI''"



definition created_plan :: string where
  "created_plan =
     ''# Demo - Project Plan\<newline>\<newline>## Project Overview\<newline>A demo\<newline>\<newline>## Environment Setup\<newline>```bash\<newline>\<newline>```\<newline>\<newline>'' @
     ''## Implementation Tasks\<newline>\<newline>### HIGH Priority Tasks\<newline>- [ ] Build login\<newline>\<newline>\<newline>'' @
     ''## Progress Tracking\<newline>- Started: 2024-01-01 00:00:00\<newline>- Last Updated: 2024-01-01 00:00:00\<newline>'' @
     ''- Status: IN PROGRESS\<newline>\<newline>## Next Steps\<newline>- Review and refine tasks\<newline>\<newline>## Notes\<newline>''"

text \<open>
  The text of a checkbox line with marker \<open>m\<close> and title \<open>t\<close>, and the frame of an update
  as the claim words it, line by line: a line is unchanged, or it is exactly a checkbox
  line of the title before and after, or it is the line of the time stamp.
\<close>

definition checkbox_text :: "char \<Rightarrow> string \<Rightarrow> string" where
  "checkbox_text m t = ''- ['' @ [m] @ ''] '' @ t"

fun split_on :: "char \<Rightarrow> string \<Rightarrow> string list" where
  "split_on sep [] = [[]]"
| "split_on sep (x # xs) =
     (if x = sep then [] # split_on sep xs
      else (case split_on sep xs of [] \<Rightarrow> [[x]] | l # ls \<Rightarrow> (x # l) # ls))"

definition claimed_frame :: "string \<Rightarrow> string \<Rightarrow> string \<Rightarrow> bool" where
  "claimed_frame t old new \<longleftrightarrow>
     list_all2
       (\<lambda>l l'. l = l' \<or>
                (l \<in> {checkbox_text CHR '' '' t, checkbox_text CHR ''x'' t} \<and>
                 l' \<in> {checkbox_text CHR '' '' t, checkbox_text CHR ''x'' t}) \<or>
                prefix ''- Last Updated: '' l)
       (split_on CHR 0x0A old) (split_on CHR 0x0A new)"

definition prefix_plan :: string where
  "prefix_plan = ''- [ ] Task 10\<newline>- [ ] Task\<newline>- Last Updated: 2024-01-01 00:00:00''"

definition stamp_plan :: string where
  "stamp_plan = ''- [ ] Show Last Updated: label\<newline>- Last Updated: 2024-01-01 00:00:00''"

definition dollar_plan :: string where
  "dollar_plan = ''- [ ] Pay $$ now\<newline>- Last Updated: 2024-01-01 00:00:00''"


section \<open>Notions for the proofs\<close>




section \<open>The analyzer\<close>









subsection \<open>Facts about the matcher\<close>

lemma of_char_int_range: "0 \<le> (of_char c :: int) \<and> (of_char c :: int) < 256"
proof -
  have "(of_char c :: int) = int (of_char c)" by (simp add: of_nat_of_char)
  moreover have "(of_char c :: nat) < 256" by simp
  ultimately show ?thesis by simp
qed

lemma of_char_canonicalize:
  "(of_char (canonicalize c) :: int) =
     (if 97 \<le> (of_char c :: int) \<and> (of_char c :: int) \<le> 122 then of_char c - 32 else of_char c)"
  using of_char_int_range [of c] by (auto simp: canonicalize_def Let_def)

lemma of_char_toLowerCase_char:
  "(of_char (toLowerCase_char c) :: int) =
     (if (65 \<le> (of_char c :: int) \<and> (of_char c :: int) \<le> 90) \<or>
         (192 \<le> (of_char c :: int) \<and> (of_char c :: int) \<le> 222 \<and> (of_char c :: int) \<noteq> 215)
      then of_char c + 32 else of_char c)"
  using of_char_int_range [of c] by (auto simp: toLowerCase_char_def Let_def)

lemma canonicalize_eq_toLowerCase:
  assumes "canonicalize a = canonicalize x"
  shows "toLowerCase_char a = toLowerCase_char x"
proof -
  from assms have "(of_char (canonicalize a) :: int) = of_char (canonicalize x)" by simp
  then have "(of_char (toLowerCase_char a) :: int) = of_char (toLowerCase_char x)"
    unfolding of_char_canonicalize of_char_toLowerCase_char
    by (auto split: if_splits)
  then show ?thesis by simp
qed

lemma prefixI_toLowerCase:
  "prefixI l s \<Longrightarrow> prefix (toLowerCase l) (toLowerCase s)"
proof (induction l s rule: prefixI.induct)
  case (1 s)
  then show ?case by (simp add: toLowerCase_def)
next
  case (2 a l)
  then show ?case by simp
next
  case (3 a l x s)
  from "3.prems" have c: "canonicalize a = canonicalize x" and p: "prefixI l s"
    by (simp_all split: if_splits)
  from "3.IH" [OF c p] canonicalize_eq_toLowerCase [OF c] show ?case
    by (simp add: toLowerCase_def)
qed

lemma rx_exec_None:
  "(\<And>u v. s = u @ v \<Longrightarrow> ms r (v, Map.empty) = []) \<Longrightarrow> rx_exec r pre s = None"
proof (induction s arbitrary: pre)
  case Nil
  then show ?case by simp
next
  case (Cons x xs)
  have here: "ms r (x # xs, Map.empty) = []" using Cons.prems [of "[]" "x # xs"] by simp
  have "rx_exec r (pre @ [x]) xs = None"
  proof (rule Cons.IH)
    fix u v assume "xs = u @ v"
    then have "x # xs = (x # u) @ v" by simp
    then show "ms r (v, Map.empty) = []" by (rule Cons.prems)
  qed
  with here show ?case by simp
qed

lemma ms_section_rx_Nil: "\<not> prefixI keyword s \<Longrightarrow> ms (section_rx keyword) (s, c) = []"
  by (simp add: section_rx_def)

lemma toLowerCase_append: "toLowerCase (u @ v) = toLowerCase u @ toLowerCase v"
  by (simp add: toLowerCase_def)

lemma no_task_section:
  assumes "\<not> sublist ''tasks'' (toLowerCase text)"
  shows "rx_exec (section_rx ''Tasks'') [] text = None"
proof (rule rx_exec_None)
  fix u v assume uv: "text = u @ v"
  have low: "toLowerCase ''Tasks'' = ''tasks''" by code_simp
  have "\<not> prefixI ''Tasks'' v"
  proof
    assume "prefixI ''Tasks'' v"
    then have "prefix ''tasks'' (toLowerCase v)"
      using prefixI_toLowerCase [of "''Tasks''" v] by (simp only: low)
    then obtain w where "toLowerCase v = ''tasks'' @ w" by (auto simp: prefix_def)
    then have "toLowerCase text = toLowerCase u @ ''tasks'' @ w"
      by (simp add: uv toLowerCase_append)
    then have "sublist ''tasks'' (toLowerCase text)" unfolding sublist_def by blast
    with assms show False by contradiction
  qed
  then show "ms (section_rx ''Tasks'') (v, Map.empty) = []" by (rule ms_section_rx_Nil)
qed

lemma ms_heading_rx_Nil: "CHR ''#'' \<notin> set s \<Longrightarrow> ms heading_rx (s, c) = []"
  by (cases s) (auto simp: heading_rx_def)

lemma no_headings:
  assumes "CHR ''#'' \<notin> set text"
  shows "rx_matchAll heading_rx [] text = []"
proof -
  have "rx_exec heading_rx [] text = None"
  proof (rule rx_exec_None)
    fix u v assume "text = u @ v"
    with assms have "CHR ''#'' \<notin> set v" by simp
    then show "ms heading_rx (v, Map.empty) = []" by (rule ms_heading_rx_Nil)
  qed
  then show ?thesis by (subst rx_matchAll.simps) simp
qed












































subsection \<open>Claims\<close>

text \<open>
  Claim C6. For every string, the empty one included, \<open>determineTaskPriority\<close> lowercases
  the text and answers with the first rule, in the order of the table \<open>priority_rules\<close>,
  one of whose keywords occurs in it, and with \<^verbatim>\<open>MEDIUM\<close> when no rule applies. The
  function is total and has no effect besides its result.
\<close>

theorem determineTaskPriority_precedence:
  "determineTaskPriority text = classifyPriority text \<and> determineTaskPriority [] = ''MEDIUM''"
  by (simp add: determineTaskPriority_def classifyPriority_def priority_rules_def includes_str_def
      toLowerCase_def Let_def)






text \<open>
  An empty bullet is not skipped when a line follows it: the white space after the marker
  runs over the newline and the next line, marker included, becomes the title.
\<close>

lemma empty_bullet_takes_next_line:
  "map title (tasks (analyzeRequirements ''Tasks:\<newline>-\<newline>- B\<newline>'')) = [''- B'']"
  by code_simp

text \<open>
  Claim C5, as amended. For every text in which the word \<^verbatim>\<open>tasks\<close> does not occur in any
  letter case and which has no \<^verbatim>\<open>#\<close> character, the tasks of \<open>analyzeRequirements\<close> are
  the catalog entry of \<open>inferProjectType\<close>, element for element.
\<close>

theorem catalog_fallback:
  assumes "\<not> sublist ''tasks'' (toLowerCase text)" and "CHR ''#'' \<notin> set text"
  shows "tasks (analyzeRequirements text) = getDefaultTasks (inferProjectType text)"
  using no_task_section [OF assms(1)] no_headings [OF assms(2)]
  by (simp add: analyzeRequirements_def generateTasks_def Let_def)

theorem catalog_fallback_witness:
  "\<not> sublist ''tasks'' (toLowerCase ''Build a website'') \<and>
   CHR ''#'' \<notin> set ''Build a website'' \<and>
   tasks (analyzeRequirements ''Build a website'') = getDefaultTasks ''web''"
proof -
  have h1: "\<not> sublist ''tasks'' (toLowerCase ''Build a website'')" by code_simp
  have h2: "CHR ''#'' \<notin> set ''Build a website''" by simp
  have ty: "inferProjectType ''Build a website'' = ''web''" by code_simp
  from catalog_fallback [OF h1 h2] h1 h2 show ?thesis by (simp only: ty simp_thms)
qed

text \<open>
  The claim as written fails: a text with no \<^verbatim>\<open>Tasks:\<close> block and no heading, in which
  the word \<^verbatim>\<open>tasks\<close> is followed by a hyphen, yields a task and not the catalog.
\<close>

theorem catalog_fallback_counterexample:
  "\<not> sublist ''Tasks:'' ''We track tasks - daily'' \<and>
   CHR ''#'' \<notin> set ''We track tasks - daily'' \<and>
   tasks (analyzeRequirements ''We track tasks - daily'') = [mk_task ''daily'' ''MEDIUM'' []] \<and>
   tasks (analyzeRequirements ''We track tasks - daily'') \<noteq>
     getDefaultTasks (inferProjectType ''We track tasks - daily'')"
  by code_simp


section \<open>The task manager and the orchestrator\<close>

lemma demo_status:
  "getCurrentStatus ''TASK.mdc'' [''TASK.mdc'' \<mapsto> demo_plan] =
     Inr \<lparr>st_project_name = ''Demo'', st_status = ''Unknown'', st_last_updated = ''Unknown'',
          st_tasks = [\<lparr>st_title = ''Setup database layer'', st_completed = False\<rparr>,
                      \<lparr>st_title = ''Polish UI'', st_completed = False\<rparr>],
          completed_tasks = 0, total_tasks = 2\<rparr>"
  by code_simp

lemma demo_resume:
  "resumeProject ''TASK.mdc'' [''TASK.mdc'' \<mapsto> demo_plan] =
     Inr \<lparr>r_project_name = ''Demo'', r_status = ''Unknown'',
          progress = ''0/2 tasks completed'',
          next_tasks = [\<lparr>st_title = ''Setup database layer'', st_completed = False\<rparr>],
          r_message = ''Project resumed successfully''\<rparr>"
  by code_simp

text \<open>
  Claim C8. When the state file does not exist, \<open>updateTaskStatus\<close> returns false and
  leaves the file system as it was: no file is created.
\<close>

theorem updateTaskStatus_missing_file:
  "files taskFilePath = None \<Longrightarrow>
     updateTaskStatus taskFilePath now taskTitle completed files = (False, files)"
  by (simp add: updateTaskStatus_def)

theorem updateTaskStatus_missing_file_witness:
  "(Map.empty :: fs) ''TASK.mdc'' = None \<and>
   updateTaskStatus ''TASK.mdc'' ''2024-01-01 00:00:00'' ''Build login'' True Map.empty
     = (False, Map.empty)"
  using updateTaskStatus_missing_file [of Map.empty "''TASK.mdc''" "''2024-01-01 00:00:00''" "''Build login''" True]
  by simp

text \<open>
  Claim C7. For every plan that can be read, \<open>resumeProject\<close> keeps the incomplete tasks of
  the parsed status, classifies each from its title alone, and returns as \<open>next_tasks\<close>
  the first non-empty bucket in the order \<^verbatim>\<open>HIGH\<close>, \<^verbatim>\<open>MEDIUM\<close>, \<^verbatim>\<open>LOW\<close>, cut to at most
  three entries. For the plan \<open>demo_plan\<close>, whose incomplete tasks are
  \<^verbatim>\<open>Setup database layer\<close> and \<^verbatim>\<open>Polish UI\<close>, the only next task is
  \<^verbatim>\<open>Setup database layer\<close>.
\<close>

theorem resumeProject_next_tasks:
  "(getCurrentStatus taskFilePath files = Inr status \<longrightarrow>
      (\<exists>info. resumeProject taskFilePath files = Inr info \<and>
         next_tasks info =
           take 3 (first_nonempty
             (map (\<lambda>p. resume_bucket p (filter (\<lambda>t. \<not> st_completed t) (st_tasks status)))
                [''HIGH'', ''MEDIUM'', ''LOW''])))) \<and>
   (\<exists>info. resumeProject ''TASK.mdc'' [''TASK.mdc'' \<mapsto> demo_plan] = Inr info \<and>
      map st_title (next_tasks info) = [''Setup database layer''])"
proof -
  have "\<exists>info. resumeProject ''TASK.mdc'' [''TASK.mdc'' \<mapsto> demo_plan] = Inr info \<and>
      map st_title (next_tasks info) = [''Setup database layer'']"
    by (simp add: demo_resume)
  then show ?thesis
    by (simp add: resumeProject_def resume_bucket_def Let_def)
qed

theorem resumeProject_next_tasks_witness:
  "\<exists>status info.
     getCurrentStatus ''TASK.mdc'' [''TASK.mdc'' \<mapsto> demo_plan] = Inr status \<and>
     resumeProject ''TASK.mdc'' [''TASK.mdc'' \<mapsto> demo_plan] = Inr info \<and>
     next_tasks info = [\<lparr>st_title = ''Setup database layer'', st_completed = False\<rparr>]"
proof -
  let ?ts = "[\<lparr>st_title = ''Setup database layer'', st_completed = False\<rparr>,
              \<lparr>st_title = ''Polish UI'', st_completed = False\<rparr>]"
  let ?st = "\<lparr>st_project_name = ''Demo'', st_status = ''Unknown'', st_last_updated = ''Unknown'',
          st_tasks = ?ts, completed_tasks = 0, total_tasks = 2\<rparr>"
  have b: "take 3 (first_nonempty
             (map (\<lambda>p. resume_bucket p (filter (\<lambda>t. \<not> st_completed t) ?ts))
                [''HIGH'', ''MEDIUM'', ''LOW''])) =
           [\<lparr>st_title = ''Setup database layer'', st_completed = False\<rparr>]"
    by code_simp
  have sel: "st_tasks ?st = ?ts" by simp
  from resumeProject_next_tasks [THEN conjunct1, THEN mp, OF demo_status]
  obtain info where
    1: "resumeProject ''TASK.mdc'' [''TASK.mdc'' \<mapsto> demo_plan] = Inr info" and
    2: "next_tasks info = take 3 (first_nonempty
             (map (\<lambda>p. resume_bucket p (filter (\<lambda>t. \<not> st_completed t) (st_tasks ?st)))
                [''HIGH'', ''MEDIUM'', ''LOW'']))"
    by blast
  from 2 have "next_tasks info = [\<lparr>st_title = ''Setup database layer'', st_completed = False\<rparr>]"
    unfolding sel b .
  with 1 demo_status show ?thesis by blast
qed

text \<open>
  Claim C10. The classifier of \<open>resumeProject\<close> answers \<^verbatim>\<open>HIGH\<close> exactly when the
  lowercased title mentions one of \<open>resume_high_words\<close>, otherwise \<^verbatim>\<open>LOW\<close> exactly when it
  mentions one of \<open>resume_low_words\<close>, otherwise \<^verbatim>\<open>MEDIUM\<close>. It differs from
  \<open>determineTaskPriority\<close>: a title that mentions \<^verbatim>\<open>urgent\<close> and none of those words is
  \<^verbatim>\<open>HIGH\<close> for the one and \<^verbatim>\<open>MEDIUM\<close> for the other.
\<close>

theorem resume_classifier:
  "(resume_determineTaskPriority t = ''HIGH'' \<longleftrightarrow> mentions t resume_high_words) \<and>
   (resume_determineTaskPriority t = ''LOW'' \<longleftrightarrow>
      \<not> mentions t resume_high_words \<and> mentions t resume_low_words) \<and>
   (resume_determineTaskPriority t = ''MEDIUM'' \<longleftrightarrow>
      \<not> mentions t resume_high_words \<and> \<not> mentions t resume_low_words) \<and>
   (mentions t [''urgent''] \<and> \<not> mentions t resume_high_words \<and> \<not> mentions t resume_low_words
      \<longrightarrow> determineTaskPriority t = ''HIGH'' \<and> resume_determineTaskPriority t = ''MEDIUM'')"
  by (simp add: resume_determineTaskPriority_def determineTaskPriority_def mentions_def
      resume_high_words_def resume_low_words_def includes_str_def Let_def)

theorem resume_classifier_witness:
  "mentions ''urgent: fix crash'' [''urgent''] \<and>
   \<not> mentions ''urgent: fix crash'' resume_high_words \<and>
   \<not> mentions ''urgent: fix crash'' resume_low_words \<and>
   determineTaskPriority ''urgent: fix crash'' = ''HIGH'' \<and>
   resume_determineTaskPriority ''urgent: fix crash'' = ''MEDIUM''"
proof -
  have h: "mentions ''urgent: fix crash'' [''urgent''] \<and>
      \<not> mentions ''urgent: fix crash'' resume_high_words \<and>
      \<not> mentions ''urgent: fix crash'' resume_low_words"
    by code_simp
  with resume_classifier [of "''urgent: fix crash''"] show ?thesis by blast
qed

lemma created_plan_written:
  "createTaskFile ''TASK.mdc'' ''2024-01-01 00:00:00'' ''2024-01-01 00:00:00'' ''Demo'' ''A demo''
      [mk_task ''Build login'' ''HIGH'' []] [] [''Review and refine tasks''] [] Map.empty
   = Inr (''TASK.mdc'', [''TASK.mdc'' \<mapsto> created_plan])"
  by (simp add: createTaskFile_def formatTasks_def mk_task_def object_prototype_keys_def
      created_plan_def Let_def)

text \<open>
  Claim C2. The claim is that reading the status right after creating the plan returns
  the tasks that were written. The program does not: the checkbox pattern accepts a line
  only when the next line is a checkbox at the left margin or the input ends there, and
  the plan written for one task is read back with no task at all.
\<close>

theorem roundtrip_loses_tasks:
  "createTaskFile ''TASK.mdc'' ''2024-01-01 00:00:00'' ''2024-01-01 00:00:00'' ''Demo'' ''A demo''
      [mk_task ''Build login'' ''HIGH'' []] [] [''Review and refine tasks''] [] Map.empty
   = Inr (''TASK.mdc'', [''TASK.mdc'' \<mapsto> created_plan]) \<and>
   getCurrentStatus ''TASK.mdc'' [''TASK.mdc'' \<mapsto> created_plan] =
     Inr \<lparr>st_project_name = ''Demo'', st_status = ''IN PROGRESS'',
          st_last_updated = ''2024-01-01 00:00:00'', st_tasks = [],
          completed_tasks = 0, total_tasks = 0\<rparr>"
proof -
  have "getCurrentStatus ''TASK.mdc'' [''TASK.mdc'' \<mapsto> created_plan] =
     Inr \<lparr>st_project_name = ''Demo'', st_status = ''IN PROGRESS'',
          st_last_updated = ''2024-01-01 00:00:00'', st_tasks = [],
          completed_tasks = 0, total_tasks = 0\<rparr>"
    by code_simp
  with created_plan_written show ?thesis by (rule conjI)
qed

text \<open>
  Claim C1. The claim is that an update that finds no task, or finds it already in the
  requested state, returns false and writes nothing. The program compares the content
  after the time stamp has been rewritten: at a later reading of the clock the call
  returns true and writes the file although no task matched, and a second identical call
  returns true again.
\<close>

theorem updateTaskStatus_touches_timestamp:
  "fst (updateTaskStatus ''TASK.mdc'' ''2024-01-01 00:00:05'' ''No such task'' True
          [''TASK.mdc'' \<mapsto> created_plan]) = True \<and>
   snd (updateTaskStatus ''TASK.mdc'' ''2024-01-01 00:00:05'' ''No such task'' True
          [''TASK.mdc'' \<mapsto> created_plan]) ''TASK.mdc'' \<noteq> Some created_plan \<and>
   (let first = updateTaskStatus ''TASK.mdc'' ''2024-01-01 00:00:05'' ''Build login'' True
                  [''TASK.mdc'' \<mapsto> created_plan];
        second = updateTaskStatus ''TASK.mdc'' ''2024-01-01 00:00:09'' ''Build login'' True
                   (snd first)
    in fst first = True \<and> fst second = True \<and>
       snd second ''TASK.mdc'' \<noteq> snd first ''TASK.mdc'')"
  by code_simp

text \<open>
  Claim C3. The claim is that a successful update changes the marker of the one line that
  is exactly the checkbox line of the title, and the line of the time stamp, and nothing
  else. The program does not: the pattern of the title is not tied to a line. For the title
  \<^verbatim>\<open>Task\<close> the marker of the line \<^verbatim>\<open>- [ ] Task 10\<close> is rewritten and the line
  \<^verbatim>\<open>- [ ] Task\<close> stays unchecked, and the call returns true. For a title that holds the
  words \<^verbatim>\<open>Last Updated: \<close> the time stamp is written over the title and the line of the
  time stamp keeps its old value.
\<close>

theorem updateTaskStatus_rewrites_other_line:
  "fst (updateTaskStatus ''TASK.mdc'' ''2024-01-01 00:00:05'' ''Task'' True
          [''TASK.mdc'' \<mapsto> prefix_plan]) = True \<and>
   snd (updateTaskStatus ''TASK.mdc'' ''2024-01-01 00:00:05'' ''Task'' True
          [''TASK.mdc'' \<mapsto> prefix_plan]) ''TASK.mdc'' =
     Some ''- [x] Task 10\<newline>- [ ] Task\<newline>- Last Updated: 2024-01-01 00:00:05'' \<and>
   \<not> claimed_frame ''Task'' prefix_plan
       ''- [x] Task 10\<newline>- [ ] Task\<newline>- Last Updated: 2024-01-01 00:00:05'' \<and>
   fst (updateTaskStatus ''TASK.mdc'' ''2024-01-01 00:00:05'' ''Show Last Updated: label'' True
          [''TASK.mdc'' \<mapsto> stamp_plan]) = True \<and>
   snd (updateTaskStatus ''TASK.mdc'' ''2024-01-01 00:00:05'' ''Show Last Updated: label'' True
          [''TASK.mdc'' \<mapsto> stamp_plan]) ''TASK.mdc'' =
     Some ''- [x] Show Last Updated: 2024-01-01 00:00:05\<newline>- Last Updated: 2024-01-01 00:00:00'' \<and>
   \<not> claimed_frame ''Show Last Updated: label'' stamp_plan
       ''- [x] Show Last Updated: 2024-01-01 00:00:05\<newline>- Last Updated: 2024-01-01 00:00:00''"
  by code_simp

text \<open>A title with \<^verbatim>\<open>$$\<close> is written back with one dollar sign.\<close>

lemma dollar_title_rewritten:
  "fst (updateTaskStatus ''TASK.mdc'' ''2024-01-01 00:00:05'' ''Pay $$ now'' True
          [''TASK.mdc'' \<mapsto> dollar_plan]) = True \<and>
   snd (updateTaskStatus ''TASK.mdc'' ''2024-01-01 00:00:05'' ''Pay $$ now'' True
          [''TASK.mdc'' \<mapsto> dollar_plan]) ''TASK.mdc'' =
     Some ''- [x] Pay $ now\<newline>- Last Updated: 2024-01-01 00:00:05''"
  by code_simp

end
